theory Spec2Isabelle
  imports Main
begin

section \<open>Scope types of the resolution layer (scope-types.h)\<close>

text \<open>
  The header declares the containers that name lookup works on. This theory embeds
  them as HOL records and functions and proves properties of the embedded operations.

  Conventions of the embedding.
  \<^item> \<open>ID\<close> and \<open>UniqueString\<close> are declared in other headers. They are type parameters
    \<open>'id\<close> and \<open>'name\<close> here; their \<open>operator==\<close> is HOL equality, \<open>ID::swap\<close> exchanges
    the two values, and the value of a default-constructed \<open>ID\<close> is a parameter of the
    one constructor that needs it.
  \<^item> \<open>owned<std::vector<ID>>\<close> is an \<open>'id list option\<close>: \<open>None\<close> is the null pointer.
  \<^item> A \<open>BorrowedIdsWithName\<close> holds a raw pointer to the owner's vector. The view is
    read while the owner is unchanged, so the pointer is modelled by the vector it
    points to (\<open>None\<close> for the null pointer). Pointer identity (which only the view's
    own \<open>operator==\<close> observes) is not modelled.
  \<^item> \<open>int\<close> is 32 bits wide in two's complement and \<open>size_t\<close> is wider. Their values
    are HOL \<open>int\<close> and \<open>nat\<close>. \<open>numIds\<close> returns a vector's size as an \<open>int\<close>: that
    conversion is \<open>int_of_size_t\<close>, which keeps the low 32 bits. The cast of a
    non-negative \<open>int\<close> to \<open>size_t\<close> in \<open>id\<close> is exact.
  \<^item> A failed \<open>assert\<close> (debug build) and undefined behaviour of the standard library
    are values of the type \<open>error\<close>.
  \<^item> Member names ending in an underscore are written with a prefix instead
    (\<open>o_id\<close>, \<open>o_moreIds\<close> for \<open>OwnedIdsWithName\<close>; \<open>b_id\<close>, \<open>b_moreIds\<close> for
    \<open>BorrowedIdsWithName\<close>), and member functions whose names are HOL constants or
    keywords carry the class name (\<open>BorrowedIdsWithName_id\<close>, \<open>BorrowedIdsWithName_begin\<close>).
\<close>

datatype error = AssertionFailed | UndefinedBehaviour

subsection \<open>OwnedIdsWithName\<close>

record 'id OwnedIdsWithName =
  o_id :: 'id
  o_moreIds :: "'id list option"

text \<open>\<open>OwnedIdsWithName(ID id) : id_(std::move(id)), moreIds_(nullptr)\<close>\<close>

definition OwnedIdsWithName_ctor :: "'id \<Rightarrow> 'id OwnedIdsWithName" where
  "OwnedIdsWithName_ctor i = \<lparr>o_id = i, o_moreIds = None\<rparr>"

text \<open>
  \<open>appendId\<close>: when \<open>moreIds_\<close> is null, a new vector is created and \<open>id_\<close> is pushed
  onto it; then the new id is pushed.
\<close>

definition appendId :: "'id OwnedIdsWithName \<Rightarrow> 'id \<Rightarrow> 'id OwnedIdsWithName" where
  "appendId ow newId =
     (case o_moreIds ow of
        None \<Rightarrow> ow\<lparr>o_moreIds := Some ([o_id ow] @ [newId])\<rparr>
      | Some v \<Rightarrow> ow\<lparr>o_moreIds := Some (v @ [newId])\<rparr>)"

text \<open>
  \<open>OwnedIdsWithName::operator==\<close>, with its three early returns in order. The last
  line dereferences both pointers; both are non-null there.
\<close>

definition OwnedIdsWithName_eq :: "'id OwnedIdsWithName \<Rightarrow> 'id OwnedIdsWithName \<Rightarrow> bool" where
  "OwnedIdsWithName_eq a b =
     (if o_id a \<noteq> o_id b then False
      else if (o_moreIds a = None) \<noteq> (o_moreIds b = None) then False
      else if o_moreIds a = None \<and> o_moreIds b = None then True
      else the (o_moreIds a) = the (o_moreIds b))"

text \<open>
  A bucket as client code builds it: the one-ID constructor, then one \<open>appendId\<close> call
  for each further id, in order.
\<close>

definition installIds :: "'id \<Rightarrow> 'id list \<Rightarrow> 'id OwnedIdsWithName" where
  "installIds first rest = foldl appendId (OwnedIdsWithName_ctor first) rest"

text \<open>The ids a bucket holds, in order: the inline id alone, or the vector.\<close>

definition ownedIds :: "'id OwnedIdsWithName \<Rightarrow> 'id list" where
  "ownedIds ow = (case o_moreIds ow of None \<Rightarrow> [o_id ow] | Some v \<Rightarrow> v)"

subsection \<open>BorrowedIdsWithName\<close>

record 'id BorrowedIdsWithName =
  b_id :: 'id
  b_moreIds :: "'id list option"

text \<open>
  The three constructors. The default constructor default-constructs \<open>id_\<close>; the value
  of a default-constructed \<open>ID\<close> is the parameter \<open>emptyId\<close>.
\<close>

definition BorrowedIdsWithName_default :: "'id \<Rightarrow> 'id BorrowedIdsWithName" where
  "BorrowedIdsWithName_default emptyId = \<lparr>b_id = emptyId, b_moreIds = None\<rparr>"

definition BorrowedIdsWithName_one :: "'id \<Rightarrow> 'id BorrowedIdsWithName" where
  "BorrowedIdsWithName_one i = \<lparr>b_id = i, b_moreIds = None\<rparr>"

definition BorrowedIdsWithName_borrow :: "'id OwnedIdsWithName \<Rightarrow> 'id BorrowedIdsWithName" where
  "BorrowedIdsWithName_borrow ow = \<lparr>b_id = o_id ow, b_moreIds = o_moreIds ow\<rparr>"

text \<open>
  The conversion of a \<open>size_t\<close> to \<open>int\<close>: the value modulo \<open>2^32\<close>, read as a signed
  32-bit number. Sizes below \<open>2^31\<close> are unchanged.
\<close>

definition int_of_size_t :: "nat \<Rightarrow> int" where
  "int_of_size_t n =
     (let m = int n mod 2 ^ 32 in if m < 2 ^ 31 then m else m - 2 ^ 32)"

text \<open>\<open>numIds\<close> returns \<open>moreIds_->size()\<close> as an \<open>int\<close>.\<close>

definition numIds :: "'id BorrowedIdsWithName \<Rightarrow> int" where
  "numIds b = (case b_moreIds b of None \<Rightarrow> 1 | Some v \<Rightarrow> int_of_size_t (length v))"

text \<open>
  \<open>id(int i)\<close>: index 0 returns \<open>id_\<close>; any other index is checked by
  \<open>assert(moreIds_ && 0 <= i && (size_t) i < moreIds_->size())\<close> and then read from
  the vector.
\<close>

definition BorrowedIdsWithName_id :: "'id BorrowedIdsWithName \<Rightarrow> int \<Rightarrow> error + 'id" where
  "BorrowedIdsWithName_id b i =
     (if i = 0 then Inr (b_id b)
      else (case b_moreIds b of
              None \<Rightarrow> Inl AssertionFailed
            | Some v \<Rightarrow>
                if 0 \<le> i \<and> nat i < length v then Inr (v ! nat i)
                else Inl AssertionFailed))"







text \<open>
  The views client code can hold: one built from a single ID (the default constructor
  is the case of the default-constructed ID), or one borrowed from a bucket that was
  built by the one-ID constructor and \<open>appendId\<close> calls.
\<close>

definition constructibleViews :: "'id BorrowedIdsWithName set" where
  "constructibleViews =
     {v. (\<exists>i. v = BorrowedIdsWithName_one i) \<or>
         (\<exists>a rest. v = BorrowedIdsWithName_borrow (installIds a rest))}"

text \<open>The ids a view stands for, in order.\<close>

definition viewIds :: "'id BorrowedIdsWithName \<Rightarrow> 'id list" where
  "viewIds b = (case b_moreIds b of None \<Rightarrow> [b_id b] | Some v \<Rightarrow> v)"

subsection \<open>Scope\<close>

text \<open>
  \<open>DeclMap\<close> is an \<open>unordered_map\<close> from names to buckets: a partial map. The parent
  pointer is an optional address, and the AST tag type is a parameter.
\<close>

record ('id, 'name, 'tag) Scope =
  parentScope :: "nat option"
  tag :: 'tag
  containsUseImport :: bool
  containsFunctionDecls :: bool
  scopeId :: 'id
  scopeName :: 'name
  declared :: "'name \<rightharpoonup> 'id OwnedIdsWithName"

text \<open>
  \<open>lookupInScope\<close> takes the result vector by reference; the model returns the flag
  together with the vector after the call.
\<close>

definition lookupInScope ::
  "('id, 'name, 'tag) Scope \<Rightarrow> 'name \<Rightarrow> 'id BorrowedIdsWithName list
     \<Rightarrow> bool \<times> 'id BorrowedIdsWithName list" where
  "lookupInScope s name result =
     (case declared s name of
        Some bucket \<Rightarrow> (True, result @ [BorrowedIdsWithName_borrow bucket])
      | None \<Rightarrow> (False, result))"

subsection \<open>VisibilitySymbols and ResolvedVisibilityScope\<close>

datatype Kind = SYMBOL_ONLY | ALL_CONTENTS | ONLY_CONTENTS | CONTENTS_EXCEPT

record ('id, 'name) VisibilitySymbols =
  symbolId :: 'id
  kind :: Kind
  isPrivate :: bool
  names :: "('name \<times> 'name) list"

text \<open>
  The default constructor leaves the member initialisers in force
  (\<open>kind = SYMBOL_ONLY\<close>, \<open>isPrivate = true\<close>, no names); the other constructor stores
  its four arguments.
\<close>

definition VisibilitySymbols_default :: "'id \<Rightarrow> ('id, 'name) VisibilitySymbols" where
  "VisibilitySymbols_default emptyId =
     \<lparr>symbolId = emptyId, kind = SYMBOL_ONLY, isPrivate = True, names = []\<rparr>"

definition VisibilitySymbols_ctor ::
  "'id \<Rightarrow> Kind \<Rightarrow> bool \<Rightarrow> ('name \<times> 'name) list \<Rightarrow> ('id, 'name) VisibilitySymbols" where
  "VisibilitySymbols_ctor sid k priv ns =
     \<lparr>symbolId = sid, kind = k, isPrivate = priv, names = ns\<rparr>"

definition VisibilitySymbols_eq ::
  "('id, 'name) VisibilitySymbols \<Rightarrow> ('id, 'name) VisibilitySymbols \<Rightarrow> bool" where
  "VisibilitySymbols_eq a b =
     (symbolId a = symbolId b \<and> kind a = kind b \<and> names a = names b)"

text \<open>\<open>a.swap(b)\<close> for two distinct objects: the pair of both objects after the call.\<close>

definition VisibilitySymbols_swap ::
  "('id, 'name) VisibilitySymbols \<Rightarrow> ('id, 'name) VisibilitySymbols
     \<Rightarrow> ('id, 'name) VisibilitySymbols \<times> ('id, 'name) VisibilitySymbols" where
  "VisibilitySymbols_swap a b =
     (a\<lparr>symbolId := symbolId b, kind := kind b, names := names b\<rparr>,
      b\<lparr>symbolId := symbolId a, kind := kind a, names := names a\<rparr>)"

text \<open>
  What the comments on \<open>Kind\<close> say about \<open>names\<close>: one name for \<open>SYMBOL_ONLY\<close> (or
  none), none for \<open>ALL_CONTENTS\<close>, and no renaming for \<open>CONTENTS_EXCEPT\<close>.
\<close>

definition namesFitKind :: "('id, 'name) VisibilitySymbols \<Rightarrow> bool" where
  "namesFitKind v =
     (case kind v of
        SYMBOL_ONLY \<Rightarrow> length (names v) \<le> 1
      | ALL_CONTENTS \<Rightarrow> names v = []
      | ONLY_CONTENTS \<Rightarrow> True
      | CONTENTS_EXCEPT \<Rightarrow> list_all (\<lambda>p. fst p = snd p) (names v))"

text \<open>
  \<open>ResolvedVisibilityScope\<close>: the scope pointer is an address; \<open>operator==\<close> of the
  clause vectors compares the sizes and then the elements with
  \<open>VisibilitySymbols::operator==\<close>.
\<close>

record ('id, 'name) ResolvedVisibilityScope =
  scope :: nat
  visibilityClauses :: "('id, 'name) VisibilitySymbols list"

definition ResolvedVisibilityScope_eq ::
  "('id, 'name) ResolvedVisibilityScope \<Rightarrow> ('id, 'name) ResolvedVisibilityScope \<Rightarrow> bool" where
  "ResolvedVisibilityScope_eq a b =
     (scope a = scope b \<and>
      list_all2 VisibilitySymbols_eq (visibilityClauses a) (visibilityClauses b))"

subsection \<open>InnermostMatch and its update\<close>

datatype MatchesFound = ZERO | ONE | MANY

record 'id InnermostMatch =
  im_id :: 'id
  found :: MatchesFound

definition InnermostMatch_eq :: "'id InnermostMatch \<Rightarrow> 'id InnermostMatch \<Rightarrow> bool" where
  "InnermostMatch_eq a b = (im_id a = im_id b \<and> found a = found b)"

definition InnermostMatch_swap ::
  "'id InnermostMatch \<Rightarrow> 'id InnermostMatch \<Rightarrow> 'id InnermostMatch \<times> 'id InnermostMatch" where
  "InnermostMatch_swap a b =
     (a\<lparr>im_id := im_id b, found := found b\<rparr>, b\<lparr>im_id := im_id a, found := found a\<rparr>)"

text \<open>
  \<open>update<InnermostMatch>::operator()\<close> takes both arguments by reference: the model
  returns the flag and both objects after the call.
\<close>

definition update_InnermostMatch ::
  "'id InnermostMatch \<Rightarrow> 'id InnermostMatch
     \<Rightarrow> bool \<times> 'id InnermostMatch \<times> 'id InnermostMatch" where
  "update_InnermostMatch keep addin =
     (let match = InnermostMatch_eq keep addin
      in if match then (False, keep, addin)
         else (case InnermostMatch_swap keep addin of
                 (keep', addin') \<Rightarrow> (True, keep', addin')))"

section \<open>Buckets built by the constructor and appendId\<close>


lemma foldl_appendId_Some:
  "foldl appendId \<lparr>o_id = a, o_moreIds = Some v\<rparr> xs = \<lparr>o_id = a, o_moreIds = Some (v @ xs)\<rparr>"
  by (induction xs arbitrary: v) (simp_all add: appendId_def)

lemma installIds_Nil: "installIds a [] = \<lparr>o_id = a, o_moreIds = None\<rparr>"
  by (simp add: installIds_def OwnedIdsWithName_ctor_def)

lemma installIds_Cons:
  "installIds a (x # xs) = \<lparr>o_id = a, o_moreIds = Some (a # x # xs)\<rparr>"
  by (simp add: installIds_def OwnedIdsWithName_ctor_def appendId_def foldl_appendId_Some)

lemma installIds_nonempty:
  "rest \<noteq> [] \<Longrightarrow> installIds a rest = \<lparr>o_id = a, o_moreIds = Some (a # rest)\<rparr>"
  by (cases rest) (simp_all add: installIds_Cons)

lemma int_of_size_t_small: "n < 2 ^ 31 \<Longrightarrow> int_of_size_t n = int n"
proof -
  assume "n < 2 ^ 31"
  then have "int n < 2 ^ 31" by (simp flip: of_nat_less_iff)
  then show ?thesis by (simp add: int_of_size_t_def Let_def)
qed

lemma int_of_size_t_le: "int_of_size_t n \<le> int n"
proof -
  have "int n mod 2 ^ 32 \<le> int n" by (rule zmod_le_nonneg_dividend) simp
  then show ?thesis by (simp add: int_of_size_t_def Let_def)
qed

lemma id_installIds:
  assumes "0 \<le> i" and "i < int (length (a # rest))"
  shows "BorrowedIdsWithName_id (BorrowedIdsWithName_borrow (installIds a rest)) i
         = Inr ((a # rest) ! nat i)"
proof (cases rest)
  case Nil
  with assms have "i = 0" by simp
  then show ?thesis
    by (simp add: BorrowedIdsWithName_id_def BorrowedIdsWithName_borrow_def Nil installIds_Nil)
next
  case (Cons x xs)
  from assms have "nat i < length (a # rest)" by simp
  then show ?thesis using assms(1)
    by (simp add: BorrowedIdsWithName_id_def BorrowedIdsWithName_borrow_def Cons installIds_Cons)
qed

lemma ownedIds_installIds: "ownedIds (installIds a rest) = a # rest"
  by (cases rest) (simp_all add: ownedIds_def installIds_Nil installIds_Cons)

lemma borrow_installIds_Nil:
  "BorrowedIdsWithName_borrow (installIds a []) = \<lparr>b_id = a, b_moreIds = None\<rparr>"
  by (simp add: BorrowedIdsWithName_borrow_def installIds_Nil)

lemma borrow_installIds_Cons:
  "BorrowedIdsWithName_borrow (installIds a (x # xs)) = \<lparr>b_id = a, b_moreIds = Some (a # x # xs)\<rparr>"
  by (simp add: BorrowedIdsWithName_borrow_def installIds_Cons)

lemma viewIds_borrow_installIds:
  "viewIds (BorrowedIdsWithName_borrow (installIds a rest)) = a # rest"
  by (cases rest) (simp_all add: viewIds_def borrow_installIds_Nil borrow_installIds_Cons)

lemma numIds_le_length: "numIds v \<le> int (length (viewIds v))"
  by (simp add: numIds_def viewIds_def int_of_size_t_le split: option.split)

lemma numIds_small:
  assumes "length (viewIds v) < 2 ^ 31"
  shows "numIds v = int (length (viewIds v))"
proof (cases "b_moreIds v")
  case None
  then show ?thesis by (simp add: numIds_def viewIds_def)
next
  case (Some xs)
  with assms have "length xs < 2 ^ 31" by (simp add: viewIds_def)
  from int_of_size_t_small [OF this] Some show ?thesis
    by (simp add: numIds_def viewIds_def)
qed

section \<open>Views\<close>

text \<open>
  Every view client code can hold is inline-only, or it points to a vector of at least
  two ids whose first element is the view's own \<open>id_\<close>.
\<close>

lemma constructibleViews_shape:
  assumes "v \<in> constructibleViews"
  shows "b_moreIds v = None \<or> (\<exists>x xs. b_moreIds v = Some (b_id v # x # xs))"
proof -
  from assms consider (one) i where "v = BorrowedIdsWithName_one i"
    | (borrow) a rest where "v = BorrowedIdsWithName_borrow (installIds a rest)"
    by (auto simp: constructibleViews_def)
  then show ?thesis
  proof cases
    case one
    then show ?thesis by (simp add: BorrowedIdsWithName_one_def)
  next
    case borrow
    then show ?thesis
      by (cases rest) (simp_all add: borrow_installIds_Nil borrow_installIds_Cons)
  qed
qed

lemma borrow_in_constructibleViews:
  "BorrowedIdsWithName_borrow (installIds a rest) \<in> constructibleViews"
  by (auto simp: constructibleViews_def)

lemma one_in_constructibleViews: "BorrowedIdsWithName_one i \<in> constructibleViews"
  by (auto simp: constructibleViews_def)

lemma default_in_constructibleViews:
  "BorrowedIdsWithName_default emptyId \<in> constructibleViews"
  by (auto simp: constructibleViews_def BorrowedIdsWithName_default_def BorrowedIdsWithName_one_def)

lemma id_inline:
  "b_moreIds v = None \<Longrightarrow>
   BorrowedIdsWithName_id v i = (if i = 0 then Inr (b_id v) else Inl AssertionFailed)"
  by (simp add: BorrowedIdsWithName_id_def)

lemma id_vector:
  "b_moreIds v = Some (b_id v # x # xs) \<Longrightarrow>
   BorrowedIdsWithName_id v i =
     (if 0 \<le> i \<and> i < int (length (b_id v # x # xs)) then Inr ((b_id v # x # xs) ! nat i)
      else Inl AssertionFailed)"
  by (auto simp add: BorrowedIdsWithName_id_def)



lemma id_constructible:
  assumes "v \<in> constructibleViews"
  shows "BorrowedIdsWithName_id v i =
           (if 0 \<le> i \<and> i < int (length (viewIds v)) then Inr (viewIds v ! nat i)
            else Inl AssertionFailed)"
proof -
  from constructibleViews_shape [OF assms]
  consider (inline) "b_moreIds v = None"
    | (vector) x xs where "b_moreIds v = Some (b_id v # x # xs)" by auto
  then show ?thesis
  proof cases
    case inline
    then show ?thesis by (auto simp: id_inline viewIds_def)
  next
    case vector
    then show ?thesis by (simp add: id_vector viewIds_def)
  qed
qed

lemma constructible_nonempty:
  "v \<in> constructibleViews \<Longrightarrow> 1 \<le> length (viewIds v) \<and> hd (viewIds v) = b_id v"
  using constructibleViews_shape [of v] by (auto simp: viewIds_def)

lemma numIds_inline_iff:
  "v \<in> constructibleViews \<Longrightarrow> 1 < numIds v \<Longrightarrow> b_moreIds v \<noteq> None"
  by (auto simp: numIds_def split: option.splits)

text \<open>A view of \<open>2^31\<close> ids, all of them the id 0.\<close>

lemma big_view:
  "BorrowedIdsWithName_borrow (installIds (0::nat) (replicate 2147483647 0))
     = \<lparr>b_id = 0, b_moreIds = Some (0 # replicate 2147483647 0)\<rparr>"
  by (simp add: installIds_nonempty BorrowedIdsWithName_borrow_def)

lemma int_of_size_t_2_31: "int_of_size_t 2147483648 = - 2147483648"
  by (simp add: int_of_size_t_def Let_def)

section \<open>Visibility clauses\<close>

lemma clauses_eq_ignoring_isPrivate:
  "list_all2 (\<lambda>a b. symbolId a = symbolId b \<and> kind a = kind b \<and> names a = names b) cs ds
   \<Longrightarrow> list_all2 VisibilitySymbols_eq cs ds"
  by (induction cs ds rule: list_all2_induct) (simp_all add: VisibilitySymbols_eq_def)

section \<open>Claims\<close>


text \<open>
  C1, amended. \<open>numIds()\<close> returns the vector's size converted to \<open>int\<close>. For every
  sequence of fewer than \<open>2^31\<close> ids installed into an \<open>OwnedIdsWithName\<close> by its one-ID
  constructor followed by \<open>appendId\<close> calls, a view over the result reports \<open>numIds()\<close>
  equal to the number of ids installed. For every sequence, of any length, \<open>id(i)\<close>
  returns the i-th installed id, in installation order, for every \<open>0 <= i < numIds()\<close>.
\<close>

theorem C1_view_reports_installed_ids:
  "(length (a # rest) < 2 ^ 31 \<longrightarrow>
      numIds (BorrowedIdsWithName_borrow (installIds a rest)) = int (length (a # rest))) \<and>
   (\<forall>i. 0 \<le> i \<and> i < numIds (BorrowedIdsWithName_borrow (installIds a rest)) \<longrightarrow>
        BorrowedIdsWithName_id (BorrowedIdsWithName_borrow (installIds a rest)) i
          = Inr ((a # rest) ! nat i))"
proof -
  let ?v = "BorrowedIdsWithName_borrow (installIds a rest)"
  have ids: "viewIds ?v = a # rest" by (rule viewIds_borrow_installIds)
  have "length (a # rest) < 2 ^ 31 \<longrightarrow> numIds ?v = int (length (a # rest))"
    using numIds_small [of ?v] by (simp only: ids) simp
  moreover have "\<forall>i. 0 \<le> i \<and> i < numIds ?v \<longrightarrow>
      BorrowedIdsWithName_id ?v i = Inr ((a # rest) ! nat i)"
  proof (intro allI impI)
    fix i assume i: "0 \<le> i \<and> i < numIds ?v"
    with numIds_le_length [of ?v, unfolded ids] have "i < int (length (a # rest))" by linarith
    with i show "BorrowedIdsWithName_id ?v i = Inr ((a # rest) ! nat i)"
      by (simp add: id_installIds)
  qed
  ultimately show ?thesis by blast
qed

text \<open>The theorem at the ids 10, 20, 30.\<close>

theorem C1_witness:
  "length ((10::nat) # [20, 30]) < 2 ^ 31 \<and>
   numIds (BorrowedIdsWithName_borrow (installIds (10::nat) [20, 30])) = 3 \<and>
   BorrowedIdsWithName_id (BorrowedIdsWithName_borrow (installIds (10::nat) [20, 30])) 0 = Inr 10 \<and>
   BorrowedIdsWithName_id (BorrowedIdsWithName_borrow (installIds (10::nat) [20, 30])) 1 = Inr 20 \<and>
   BorrowedIdsWithName_id (BorrowedIdsWithName_borrow (installIds (10::nat) [20, 30])) 2 = Inr 30"
proof -
  let ?v = "BorrowedIdsWithName_borrow (installIds (10::nat) [20, 30])"
  note c = C1_view_reports_installed_ids [of "10::nat" "[20, 30]"]
  have b: "length ((10::nat) # [20, 30]) < 2 ^ 31" by simp
  have n: "numIds ?v = 3" using c b by simp
  have "BorrowedIdsWithName_id ?v 0 = Inr ([10, 20, 30] ! nat 0)"
    using c n by simp
  moreover have "BorrowedIdsWithName_id ?v 1 = Inr ([10, 20, 30] ! nat 1)"
    using c n by simp
  moreover have "BorrowedIdsWithName_id ?v 2 = Inr ([10, 20, 30] ! nat 2)"
    using c n by simp
  ultimately show ?thesis using n by simp
qed

text \<open>
  C1 as stated (for every sequence, \<open>numIds()\<close> is the number of ids installed) fails
  for a sequence of \<open>2^31\<close> ids: the size no longer fits in \<open>int\<close> and \<open>numIds()\<close> is
  negative.
\<close>

theorem C1_counterexample:
  "length ((0::nat) # replicate 2147483647 0) = 2147483648 \<and>
   numIds (BorrowedIdsWithName_borrow (installIds (0::nat) (replicate 2147483647 0)))
     = - 2147483648"
  by (simp add: big_view numIds_def int_of_size_t_2_31)

text \<open>
  C2. The merge hook \<open>update<InnermostMatch>\<close>, given a cached value \<open>keep\<close> and a
  freshly computed \<open>addin\<close>: if \<open>keep == addin\<close> it returns false ("unchanged") and
  leaves \<open>keep\<close> (and \<open>addin\<close>) as they were; otherwise it returns true ("changed") and
  \<open>keep\<close> afterwards equals \<open>addin\<close> as it was before the call. \<open>operator==\<close> of
  \<open>InnermostMatch\<close> holds exactly when both fields agree.
\<close>

theorem C2_update_InnermostMatch:
  "(InnermostMatch_eq keep addin \<longrightarrow>
      update_InnermostMatch keep addin = (False, keep, addin)) \<and>
   (\<not> InnermostMatch_eq keep addin \<longrightarrow>
      fst (update_InnermostMatch keep addin) = True \<and>
      fst (snd (update_InnermostMatch keep addin)) = addin) \<and>
   InnermostMatch_eq keep addin = (keep = addin)"
  by (cases keep; cases addin)
     (simp add: update_InnermostMatch_def InnermostMatch_eq_def InnermostMatch_swap_def)

text \<open>The theorem at \<open>(1, ONE)\<close> merged with \<open>(1, ONE)\<close> and with \<open>(2, ONE)\<close>.\<close>

theorem C2_witness:
  "InnermostMatch_eq \<lparr>im_id = 1::nat, found = ONE\<rparr> \<lparr>im_id = 1, found = ONE\<rparr> \<and>
   update_InnermostMatch \<lparr>im_id = 1::nat, found = ONE\<rparr> \<lparr>im_id = 1, found = ONE\<rparr>
     = (False, \<lparr>im_id = 1, found = ONE\<rparr>, \<lparr>im_id = 1, found = ONE\<rparr>) \<and>
   \<not> InnermostMatch_eq \<lparr>im_id = 1::nat, found = ONE\<rparr> \<lparr>im_id = 2, found = ONE\<rparr> \<and>
   fst (update_InnermostMatch \<lparr>im_id = 1::nat, found = ONE\<rparr> \<lparr>im_id = 2, found = ONE\<rparr>) = True \<and>
   fst (snd (update_InnermostMatch \<lparr>im_id = 1::nat, found = ONE\<rparr> \<lparr>im_id = 2, found = ONE\<rparr>))
     = \<lparr>im_id = 2, found = ONE\<rparr>"
proof -
  have same: "InnermostMatch_eq \<lparr>im_id = 1::nat, found = ONE\<rparr> \<lparr>im_id = 1, found = ONE\<rparr>"
    by (simp add: InnermostMatch_eq_def)
  have diff: "\<not> InnermostMatch_eq \<lparr>im_id = 1::nat, found = ONE\<rparr> \<lparr>im_id = 2, found = ONE\<rparr>"
    by (simp add: InnermostMatch_eq_def)
  show ?thesis
    using same diff
      C2_update_InnermostMatch [of "\<lparr>im_id = 1::nat, found = ONE\<rparr>" "\<lparr>im_id = 1, found = ONE\<rparr>"]
      C2_update_InnermostMatch [of "\<lparr>im_id = 1::nat, found = ONE\<rparr>" "\<lparr>im_id = 2, found = ONE\<rparr>"]
    by simp
qed

text \<open>
  C3. For every scope, name and accumulator: if the name is absent from the scope's
  declaration map, \<open>lookupInScope\<close> returns false and the accumulator is as it was; if
  the name is present, it returns true and the accumulator is its old contents followed
  by exactly one view, borrowed from that name's bucket.
\<close>

theorem C3_lookupInScope:
  "(declared s name = None \<longrightarrow> lookupInScope s name acc = (False, acc)) \<and>
   (\<forall>bucket. declared s name = Some bucket \<longrightarrow>
      lookupInScope s name acc = (True, acc @ [BorrowedIdsWithName_borrow bucket]))"
  by (simp add: lookupInScope_def)

text \<open>
  The theorem at a scope declaring \<open>x\<close> with the ids 1 and 2, looked up for \<open>y\<close> (a
  miss) and for \<open>x\<close> (a hit), with an accumulator that already holds one view.
\<close>

theorem C3_witness:
  "declared \<lparr>parentScope = None, tag = (), containsUseImport = False,
             containsFunctionDecls = False, scopeId = 0::nat, scopeName = ''M'',
             declared = [''x'' \<mapsto> installIds 1 [2]]\<rparr> ''y'' = None \<and>
   lookupInScope \<lparr>parentScope = None, tag = (), containsUseImport = False,
             containsFunctionDecls = False, scopeId = 0::nat, scopeName = ''M'',
             declared = [''x'' \<mapsto> installIds 1 [2]]\<rparr> ''y'' [BorrowedIdsWithName_one 9]
     = (False, [BorrowedIdsWithName_one 9]) \<and>
   declared \<lparr>parentScope = None, tag = (), containsUseImport = False,
             containsFunctionDecls = False, scopeId = 0::nat, scopeName = ''M'',
             declared = [''x'' \<mapsto> installIds 1 [2]]\<rparr> ''x'' = Some (installIds 1 [2]) \<and>
   lookupInScope \<lparr>parentScope = None, tag = (), containsUseImport = False,
             containsFunctionDecls = False, scopeId = 0::nat, scopeName = ''M'',
             declared = [''x'' \<mapsto> installIds 1 [2]]\<rparr> ''x'' [BorrowedIdsWithName_one 9]
     = (True, [BorrowedIdsWithName_one 9, \<lparr>b_id = 1, b_moreIds = Some [1, 2]\<rparr>])"
proof -
  let ?s = "\<lparr>parentScope = None, tag = (), containsUseImport = False,
             containsFunctionDecls = False, scopeId = 0::nat, scopeName = ''M'',
             declared = [''x'' \<mapsto> installIds (1::nat) [2]]\<rparr>"
  have miss: "declared ?s ''y'' = None" by simp
  have hit: "declared ?s ''x'' = Some (installIds 1 [2])" by simp
  have view: "BorrowedIdsWithName_borrow (installIds (1::nat) [2]) = \<lparr>b_id = 1, b_moreIds = Some [1, 2]\<rparr>"
    by (simp add: borrow_installIds_Cons)
  show ?thesis
    using miss hit view
      C3_lookupInScope [of ?s "''y''" "[BorrowedIdsWithName_one 9]"]
      C3_lookupInScope [of ?s "''x''" "[BorrowedIdsWithName_one 9]"]
    by simp
qed

text \<open>
  C4. For two buckets built by the constructor and \<open>appendId\<close>, \<open>operator==\<close> is true
  if and only if their id sequences are equal, the sequence of a bucket being the ids
  installed into it, in order. A one-id inline bucket is never equal to a
  sequence-backed bucket, in either order of the operands.
\<close>

theorem C4_eq_iff_same_ids:
  "OwnedIdsWithName_eq (installIds a r) (installIds b s)
     = (ownedIds (installIds a r) = ownedIds (installIds b s)) \<and>
   ownedIds (installIds a r) = a # r \<and>
   ownedIds (installIds b s) = b # s \<and>
   \<not> OwnedIdsWithName_eq (installIds a []) (installIds b (x # s)) \<and>
   \<not> OwnedIdsWithName_eq (installIds b (x # s)) (installIds a [])"
proof -
  have "OwnedIdsWithName_eq (installIds a r) (installIds b s) = (a # r = b # s)"
    by (cases r; cases s)
       (auto simp: OwnedIdsWithName_eq_def installIds_Nil installIds_Cons)
  moreover have "\<not> OwnedIdsWithName_eq (installIds a []) (installIds b (x # s))"
    and "\<not> OwnedIdsWithName_eq (installIds b (x # s)) (installIds a [])"
    by (simp_all add: OwnedIdsWithName_eq_def installIds_Nil installIds_Cons)
  ultimately show ?thesis
    by (simp add: ownedIds_installIds)
qed

text \<open>
  The theorem at the buckets holding 1, 2, 3 and 1, 2, 3 (equal), 1, 2, 3 and 1, 2
  (different), and 1 alone against 1, 2 (inline against sequence-backed).
\<close>

theorem C4_witness:
  "OwnedIdsWithName_eq (installIds (1::nat) [2, 3]) (installIds 1 [2, 3]) \<and>
   \<not> OwnedIdsWithName_eq (installIds (1::nat) [2, 3]) (installIds 1 [2]) \<and>
   \<not> OwnedIdsWithName_eq (installIds (1::nat) []) (installIds 1 [2])"
  using C4_eq_iff_same_ids [of "1::nat" "[2, 3]" 1 "[2, 3]"]
    C4_eq_iff_same_ids [of "1::nat" "[2, 3]" 1 "[2]"]
    C4_eq_iff_same_ids [of "1::nat" "[]" 1 "[]" 2]
  by simp

text \<open>
  C5, amended. For every view, \<open>id(0)\<close> returns the first id. For \<open>0 < i < numIds()\<close> the
  view is sequence-backed, the assertion holds and \<open>id(i)\<close> returns the i-th id. With
  \<open>i > 0\<close> on an inline-only view, or with \<open>i\<close> at or beyond the number of ids the view
  holds, the assertion fails; with \<open>i >= numIds()\<close> it fails when the view holds fewer
  than \<open>2^31\<close> ids, where \<open>numIds()\<close> is that number. Under \<open>0 <= i < numIds()\<close> the call
  returns the i-th id, so the failing branch is not reached.
\<close>

theorem C5_id_contract:
  assumes "v \<in> constructibleViews"
  shows "BorrowedIdsWithName_id v 0 = Inr (hd (viewIds v)) \<and>
         (\<forall>i. 0 < i \<and> i < numIds v \<longrightarrow>
              b_moreIds v \<noteq> None \<and> BorrowedIdsWithName_id v i = Inr (viewIds v ! nat i)) \<and>
         (\<forall>i. 0 < i \<and> b_moreIds v = None \<longrightarrow> BorrowedIdsWithName_id v i = Inl AssertionFailed) \<and>
         (\<forall>i. int (length (viewIds v)) \<le> i \<longrightarrow>
              BorrowedIdsWithName_id v i = Inl AssertionFailed) \<and>
         (length (viewIds v) < 2 ^ 31 \<longrightarrow>
            (\<forall>i. numIds v \<le> i \<longrightarrow> BorrowedIdsWithName_id v i = Inl AssertionFailed)) \<and>
         (\<forall>i. 0 \<le> i \<and> i < numIds v \<longrightarrow> BorrowedIdsWithName_id v i = Inr (viewIds v ! nat i))"
proof -
  note idv = id_constructible [OF assms]
  note ne = constructible_nonempty [OF assms]
  note le = numIds_le_length [of v]
  have c1: "BorrowedIdsWithName_id v 0 = Inr (hd (viewIds v))"
    using ne by (simp add: BorrowedIdsWithName_id_def)
  have c2: "\<forall>i. 0 < i \<and> i < numIds v \<longrightarrow>
              b_moreIds v \<noteq> None \<and> BorrowedIdsWithName_id v i = Inr (viewIds v ! nat i)"
  proof (intro allI impI)
    fix i assume i: "0 < i \<and> i < numIds v"
    then have "1 < numIds v" by simp
    from numIds_inline_iff [OF assms this] have "b_moreIds v \<noteq> None" .
    moreover from i le have "0 \<le> i \<and> i < int (length (viewIds v))" by simp
    then have "BorrowedIdsWithName_id v i = Inr (viewIds v ! nat i)" by (simp add: idv)
    ultimately show "b_moreIds v \<noteq> None \<and> BorrowedIdsWithName_id v i = Inr (viewIds v ! nat i)"
      by simp
  qed
  have c3: "\<forall>i. 0 < i \<and> b_moreIds v = None \<longrightarrow> BorrowedIdsWithName_id v i = Inl AssertionFailed"
    by (simp add: id_inline)
  have c4: "\<forall>i. int (length (viewIds v)) \<le> i \<longrightarrow> BorrowedIdsWithName_id v i = Inl AssertionFailed"
    by (simp add: idv)
  have c5: "length (viewIds v) < 2 ^ 31 \<longrightarrow>
            (\<forall>i. numIds v \<le> i \<longrightarrow> BorrowedIdsWithName_id v i = Inl AssertionFailed)"
    using c4 by (simp add: numIds_small)
  have c6: "\<forall>i. 0 \<le> i \<and> i < numIds v \<longrightarrow> BorrowedIdsWithName_id v i = Inr (viewIds v ! nat i)"
  proof (intro allI impI)
    fix i assume i: "0 \<le> i \<and> i < numIds v"
    with le have "0 \<le> i \<and> i < int (length (viewIds v))" by simp
    then show "BorrowedIdsWithName_id v i = Inr (viewIds v ! nat i)" by (simp add: idv)
  qed
  from c1 c2 c3 c4 c5 c6 show ?thesis by blast
qed

text \<open>
  The theorem at a view borrowed from a bucket of three ids and at a one-id view: in
  range, and one past the end.
\<close>

theorem C5_witness:
  "BorrowedIdsWithName_borrow (installIds (10::nat) [20, 30]) \<in> constructibleViews \<and>
   BorrowedIdsWithName_one (10::nat) \<in> constructibleViews \<and>
   length (viewIds (BorrowedIdsWithName_borrow (installIds (10::nat) [20, 30]))) < 2 ^ 31 \<and>
   numIds (BorrowedIdsWithName_borrow (installIds (10::nat) [20, 30])) = 3 \<and>
   BorrowedIdsWithName_id (BorrowedIdsWithName_borrow (installIds (10::nat) [20, 30])) 0 = Inr 10 \<and>
   BorrowedIdsWithName_id (BorrowedIdsWithName_borrow (installIds (10::nat) [20, 30])) 2 = Inr 30 \<and>
   BorrowedIdsWithName_id (BorrowedIdsWithName_borrow (installIds (10::nat) [20, 30])) 3
     = Inl AssertionFailed \<and>
   BorrowedIdsWithName_id (BorrowedIdsWithName_one (10::nat)) 0 = Inr 10 \<and>
   BorrowedIdsWithName_id (BorrowedIdsWithName_one (10::nat)) 1 = Inl AssertionFailed"
proof -
  let ?v = "BorrowedIdsWithName_borrow (installIds (10::nat) [20, 30])"
  let ?w = "BorrowedIdsWithName_one (10::nat)"
  have v: "?v \<in> constructibleViews" by (rule borrow_in_constructibleViews)
  have w: "?w \<in> constructibleViews" by (rule one_in_constructibleViews)
  have iv: "viewIds ?v = [10, 20, 30]" by (simp add: viewIds_borrow_installIds)
  have bv: "length (viewIds ?v) < 2 ^ 31" by (simp add: iv)
  have nv: "numIds ?v = 3" using numIds_small [OF bv] by (simp add: iv)
  have iw: "viewIds ?w = [10]" and mw: "b_moreIds ?w = None"
    by (simp_all add: viewIds_def BorrowedIdsWithName_one_def)
  note cv = C5_id_contract [OF v] and cw = C5_id_contract [OF w]
  have "BorrowedIdsWithName_id ?v 0 = Inr 10" using cv iv by simp
  moreover have "BorrowedIdsWithName_id ?v 2 = Inr ([10, 20, 30] ! nat 2)" using cv iv nv by simp
  moreover have "BorrowedIdsWithName_id ?v 3 = Inl AssertionFailed" using cv bv nv by simp
  moreover have "BorrowedIdsWithName_id ?w 0 = Inr 10" using cw iw by simp
  moreover have "BorrowedIdsWithName_id ?w 1 = Inl AssertionFailed" using cw mw by simp
  ultimately show ?thesis using v w bv nv by simp
qed

text \<open>
  C5 as stated (\<open>id(i)\<close> with \<open>i >= numIds()\<close> fails the assertion) fails for a view of
  \<open>2^31\<close> ids: \<open>numIds()\<close> is negative there, so \<open>1 >= numIds()\<close>, and \<open>id(1)\<close> passes
  the assertion and returns the second id.
\<close>

theorem C5_counterexample:
  "BorrowedIdsWithName_borrow (installIds (0::nat) (replicate 2147483647 0)) \<in> constructibleViews \<and>
   numIds (BorrowedIdsWithName_borrow (installIds (0::nat) (replicate 2147483647 0))) \<le> 1 \<and>
   BorrowedIdsWithName_id (BorrowedIdsWithName_borrow (installIds (0::nat) (replicate 2147483647 0))) 1
     = Inr 0"
proof -
  have "BorrowedIdsWithName_borrow (installIds (0::nat) (replicate 2147483647 0)) \<in> constructibleViews"
    by (rule borrow_in_constructibleViews)
  then show ?thesis
    by (simp add: big_view numIds_def int_of_size_t_2_31 BorrowedIdsWithName_id_def)
qed

text \<open>
  C6, as amended. The constructors do not check the names against the kind. A
  default-constructed \<open>VisibilitySymbols\<close> has kind \<open>SYMBOL_ONLY\<close> and no names, which
  fits. The four-argument constructor stores its arguments as given, so the value it
  builds has no names under \<open>ALL_CONTENTS\<close>, no renaming under \<open>CONTENTS_EXCEPT\<close> and at
  most one pair under \<open>SYMBOL_ONLY\<close> exactly when the names passed to it do.
\<close>

theorem C6_constructors_store_unchecked:
  "VisibilitySymbols_default emptyId
     = (\<lparr>symbolId = emptyId, kind = SYMBOL_ONLY, isPrivate = True, names = []\<rparr>
          :: ('id, 'name) VisibilitySymbols) \<and>
   namesFitKind (VisibilitySymbols_default emptyId :: ('id, 'name) VisibilitySymbols) \<and>
   symbolId (VisibilitySymbols_ctor sid k priv ns :: ('id, 'name) VisibilitySymbols) = sid \<and>
   kind (VisibilitySymbols_ctor sid k priv ns) = k \<and>
   isPrivate (VisibilitySymbols_ctor sid k priv ns) = priv \<and>
   names (VisibilitySymbols_ctor sid k priv ns) = ns \<and>
   namesFitKind (VisibilitySymbols_ctor sid k priv ns)
     = (case k of
          SYMBOL_ONLY \<Rightarrow> length ns \<le> 1
        | ALL_CONTENTS \<Rightarrow> ns = []
        | ONLY_CONTENTS \<Rightarrow> True
        | CONTENTS_EXCEPT \<Rightarrow> list_all (\<lambda>p. fst p = snd p) ns)"
  by (cases k)
     (simp_all add: VisibilitySymbols_default_def VisibilitySymbols_ctor_def namesFitKind_def)

text \<open>
  The theorem at \<open>CONTENTS_EXCEPT\<close> with a plain name (fits) and with a renaming (does
  not fit): the constructor builds both.
\<close>

theorem C6_witness:
  "namesFitKind (VisibilitySymbols_ctor (7::nat) CONTENTS_EXCEPT False [(''x'', ''x'')]) \<and>
   \<not> namesFitKind (VisibilitySymbols_ctor (7::nat) CONTENTS_EXCEPT False [(''x'', ''y'')]) \<and>
   names (VisibilitySymbols_ctor (7::nat) CONTENTS_EXCEPT False [(''x'', ''y'')]) = [(''x'', ''y'')]"
  using C6_constructors_store_unchecked
      [of "0::nat" "7::nat" CONTENTS_EXCEPT False "[(''x'', ''x'')]"]
    C6_constructors_store_unchecked
      [of "0::nat" "7::nat" CONTENTS_EXCEPT False "[(''x'', ''y'')]"]
  by simp

text \<open>
  C6 as stated (every value built by a public constructor with kind \<open>ALL_CONTENTS\<close> has
  an empty names list) fails for the four-argument constructor called with
  \<open>ALL_CONTENTS\<close> and one name pair.
\<close>

theorem C6_counterexample:
  "kind (VisibilitySymbols_ctor (7::nat) ALL_CONTENTS True [(''x'', ''x'')]) = ALL_CONTENTS \<and>
   names (VisibilitySymbols_ctor (7::nat) ALL_CONTENTS True [(''x'', ''x'')]) \<noteq> [] \<and>
   \<not> namesFitKind (VisibilitySymbols_ctor (7::nat) ALL_CONTENTS True [(''x'', ''x'')])"
  by (simp add: VisibilitySymbols_ctor_def namesFitKind_def)




text \<open>
  C8. \<open>VisibilitySymbols::operator==\<close> ignores \<open>isPrivate\<close>: two values with the same
  \<open>symbolId\<close>, \<open>kind\<close> and \<open>names\<close> are equal whatever their \<open>isPrivate\<close> fields are, in
  particular a private clause and its public twin. Hence two
  \<open>ResolvedVisibilityScope\<close> values for the same scope whose clauses agree pairwise
  except for \<open>isPrivate\<close> are equal.
\<close>

theorem C8_eq_ignores_isPrivate:
  "(symbolId a = symbolId b \<and> kind a = kind b \<and> names a = names b
      \<longrightarrow> VisibilitySymbols_eq a b) \<and>
   VisibilitySymbols_eq (a\<lparr>isPrivate := True\<rparr>) (a\<lparr>isPrivate := False\<rparr>) \<and>
   (scope r = scope r' \<and>
    list_all2 (\<lambda>a b. symbolId a = symbolId b \<and> kind a = kind b \<and> names a = names b)
      (visibilityClauses r) (visibilityClauses r')
      \<longrightarrow> ResolvedVisibilityScope_eq r r')"
  by (simp add: VisibilitySymbols_eq_def ResolvedVisibilityScope_eq_def
        clauses_eq_ignoring_isPrivate)

text \<open>
  The theorem at a private and a public \<open>ALL_CONTENTS\<close> clause for the same symbol, and
  at two resolved scopes holding one of them each.
\<close>

theorem C8_witness:
  "isPrivate \<lparr>symbolId = 1::nat, kind = ALL_CONTENTS, isPrivate = True, names = []::(string \<times> string) list\<rparr>
     \<noteq> isPrivate \<lparr>symbolId = 1::nat, kind = ALL_CONTENTS, isPrivate = False, names = []::(string \<times> string) list\<rparr> \<and>
   VisibilitySymbols_eq
     \<lparr>symbolId = 1::nat, kind = ALL_CONTENTS, isPrivate = True, names = []::(string \<times> string) list\<rparr>
     \<lparr>symbolId = 1::nat, kind = ALL_CONTENTS, isPrivate = False, names = []\<rparr> \<and>
   ResolvedVisibilityScope_eq
     \<lparr>scope = 0, visibilityClauses =
        [\<lparr>symbolId = 1::nat, kind = ALL_CONTENTS, isPrivate = True, names = []::(string \<times> string) list\<rparr>]\<rparr>
     \<lparr>scope = 0, visibilityClauses =
        [\<lparr>symbolId = 1::nat, kind = ALL_CONTENTS, isPrivate = False, names = []\<rparr>]\<rparr>"
  using C8_eq_ignores_isPrivate [of "\<lparr>symbolId = 1::nat, kind = ALL_CONTENTS, isPrivate = True, names = []::(string \<times> string) list\<rparr>"
      "\<lparr>symbolId = 1::nat, kind = ALL_CONTENTS, isPrivate = False, names = []\<rparr>"
      "\<lparr>scope = 0, visibilityClauses =
        [\<lparr>symbolId = 1::nat, kind = ALL_CONTENTS, isPrivate = True, names = []::(string \<times> string) list\<rparr>]\<rparr>"
      "\<lparr>scope = 0, visibilityClauses =
        [\<lparr>symbolId = 1::nat, kind = ALL_CONTENTS, isPrivate = False, names = []\<rparr>]\<rparr>"]
  by simp

text \<open>
  C9. \<open>a.swap(b)\<close> exchanges \<open>symbolId\<close>, \<open>kind\<close> and \<open>names\<close> between the two objects
  and leaves \<open>isPrivate\<close> of each object as it was.
\<close>

theorem C9_swap_keeps_isPrivate:
  "symbolId (fst (VisibilitySymbols_swap a b)) = symbolId b \<and>
   kind (fst (VisibilitySymbols_swap a b)) = kind b \<and>
   names (fst (VisibilitySymbols_swap a b)) = names b \<and>
   symbolId (snd (VisibilitySymbols_swap a b)) = symbolId a \<and>
   kind (snd (VisibilitySymbols_swap a b)) = kind a \<and>
   names (snd (VisibilitySymbols_swap a b)) = names a \<and>
   isPrivate (fst (VisibilitySymbols_swap a b)) = isPrivate a \<and>
   isPrivate (snd (VisibilitySymbols_swap a b)) = isPrivate b"
  by (simp add: VisibilitySymbols_swap_def)


end
